theory Spec2Isabelle
  imports Complex_Main "HOL-Library.Char_ord" "HOL-Library.List_Lexorder"
begin

section \<open>Python values used by the two job servers\<close>

text \<open>
  The development embeds the job lifecycle of \<^verbatim>\<open>src/docker/cfd/openfoam/cfd-server.py\<close>
  (class \<^verbatim>\<open>CFDSimulation\<close> and its Flask handlers) and of
  \<^verbatim>\<open>src/docker/cfd/openfoam/mesh-server.py\<close> (class \<^verbatim>\<open>MeshGenerationJob\<close> and its
  handlers).

  A Python \<^verbatim>\<open>float\<close> is modelled as an exact rational or one of the three non-finite
  values: rounding to 53 bits and the finite range of a double are not modelled.
\<close>

datatype pyfloat = Fin rat | PInf | NInf | NaN

text \<open>Exceptions carry the text that \<^verbatim>\<open>str(e)\<close> yields.\<close>

datatype exn =
    AttributeError string
  | KeyError string
  | TypeError string
  | ValueError string
  | ZeroDivisionError string
  | OverflowError string
  | OSError string
  | CalledProcessError string

fun str_exn :: "exn \<Rightarrow> string" where
  "str_exn (AttributeError m) = m"
| "str_exn (KeyError m) = m"
| "str_exn (TypeError m) = m"
| "str_exn (ValueError m) = m"
| "str_exn (ZeroDivisionError m) = m"
| "str_exn (OverflowError m) = m"
| "str_exn (OSError m) = m"
| "str_exn (CalledProcessError m) = m"

text \<open>
  What \<^verbatim>\<open>request.json\<close> can evaluate to. A JSON number (Python \<^verbatim>\<open>int\<close> or
  \<^verbatim>\<open>float\<close>) is a \<open>JNum\<close>; an object is the list of the items of the parsed
  \<^verbatim>\<open>dict\<close> (looked up with \<open>map_of\<close>).
\<close>

datatype json =
    JNull
  | JBool bool
  | JNum pyfloat
  | JStr string
  | JArr "json list"
  | JObj "(string \<times> json) list"

fun type_name :: "json \<Rightarrow> string" where
  "type_name JNull = ''NoneType''"
| "type_name (JBool _) = ''bool''"
| "type_name (JNum _) = ''float''"
| "type_name (JStr _) = ''str''"
| "type_name (JArr _) = ''list''"
| "type_name (JObj _) = ''dict''"

text \<open>A name between single quotes, as Python's messages print type and attribute names.\<close>

definition quoted :: "string \<Rightarrow> string" where
  "quoted s = CHR 0x27 # s @ [CHR 0x27]"

text \<open>\<^verbatim>\<open>config.get(key, default)\<close>: only a \<^verbatim>\<open>dict\<close> has the method.\<close>

fun config_get :: "json \<Rightarrow> string \<Rightarrow> json \<Rightarrow> exn + json" where
  "config_get (JObj kvs) key dflt = Inr (case map_of kvs key of None \<Rightarrow> dflt | Some v \<Rightarrow> v)"
| "config_get c key dflt =
     Inl (AttributeError (quoted (type_name c) @ '' object has no attribute '' @ quoted ''get''))"

text \<open>Truth value of a Python object, as \<^verbatim>\<open>if mesh_id:\<close> tests it.\<close>

fun truthy :: "json \<Rightarrow> bool" where
  "truthy JNull = False"
| "truthy (JBool b) = b"
| "truthy (JNum x) = (x \<noteq> Fin 0)"
| "truthy (JStr s) = (s \<noteq> [])"
| "truthy (JArr xs) = (xs \<noteq> [])"
| "truthy (JObj kvs) = (kvs \<noteq> [])"

subsection \<open>Float arithmetic\<close>

text \<open>\<^verbatim>\<open>a < b\<close> on floats: every comparison with NaN is false.\<close>

fun pf_less :: "pyfloat \<Rightarrow> pyfloat \<Rightarrow> bool" where
  "pf_less NaN _ = False"
| "pf_less _ NaN = False"
| "pf_less (Fin a) (Fin b) = (a < b)"
| "pf_less (Fin a) PInf = True"
| "pf_less (Fin a) NInf = False"
| "pf_less PInf _ = False"
| "pf_less NInf NInf = False"
| "pf_less NInf _ = True"

text \<open>\<^verbatim>\<open>min(a, b)\<close> of two arguments keeps \<open>a\<close> unless \<open>b < a\<close>.\<close>

definition py_min :: "pyfloat \<Rightarrow> pyfloat \<Rightarrow> pyfloat" where
  "py_min a b = (if pf_less b a then b else a)"

text \<open>Float division by a non-zero float.\<close>

fun pf_div :: "pyfloat \<Rightarrow> pyfloat \<Rightarrow> pyfloat" where
  "pf_div NaN _ = NaN"
| "pf_div _ NaN = NaN"
| "pf_div (Fin a) (Fin b) = Fin (a / b)"
| "pf_div (Fin a) _ = Fin 0"
| "pf_div PInf (Fin b) = (if 0 < b then PInf else NInf)"
| "pf_div NInf (Fin b) = (if 0 < b then NInf else PInf)"
| "pf_div _ _ = NaN"

text \<open>
  \<^verbatim>\<open>x / y\<close> for a float \<open>x\<close> and an arbitrary object \<open>y\<close>: a number or a \<^verbatim>\<open>bool\<close>
  divides (zero raises), everything else is a \<^verbatim>\<open>TypeError\<close>.
\<close>

fun py_truediv :: "pyfloat \<Rightarrow> json \<Rightarrow> exn + pyfloat" where
  "py_truediv x (JNum y) =
     (if y = Fin 0 then Inl (ZeroDivisionError ''float division by zero'')
      else Inr (pf_div x y))"
| "py_truediv x (JBool b) =
     (if b then Inr (pf_div x (Fin 1))
      else Inl (ZeroDivisionError ''float division by zero''))"
| "py_truediv x y =
     Inl (TypeError (''unsupported operand type(s) for /: '' @ quoted ''float'' @ '' and '' @
       quoted (type_name y)))"

text \<open>\<^verbatim>\<open>x * 0.4\<close>, with the literal read as the rational 2/5.\<close>

fun pf_times_04 :: "pyfloat \<Rightarrow> pyfloat" where
  "pf_times_04 (Fin a) = Fin (a * (2 / 5))"
| "pf_times_04 x = x"

text \<open>\<^verbatim>\<open>int(x)\<close> on a float truncates towards zero and raises on a non-finite value.\<close>

definition trunc :: "rat \<Rightarrow> int" where
  "trunc r = (if 0 \<le> r then \<lfloor>r\<rfloor> else \<lceil>r\<rceil>)"

fun py_int :: "pyfloat \<Rightarrow> exn + int" where
  "py_int (Fin r) = Inr (trunc r)"
| "py_int NaN = Inl (ValueError ''cannot convert float NaN to integer'')"
| "py_int _ = Inl (OverflowError ''cannot convert float infinity to integer'')"

subsection \<open>String methods\<close>

text \<open>\<^verbatim>\<open>s.startswith(p)\<close>.\<close>

definition startswith :: "string \<Rightarrow> string \<Rightarrow> bool" where
  "startswith s p = (take (length p) s = p)"

text \<open>\<^verbatim>\<open>s.split(sep)\<close> for a one-character separator: always at least one piece.\<close>

fun split_chr :: "char \<Rightarrow> string \<Rightarrow> string list" where
  "split_chr c [] = [[]]"
| "split_chr c (x # xs) =
     (if x = c then [] # split_chr c xs
      else (case split_chr c xs of p # ps \<Rightarrow> (x # p) # ps | [] \<Rightarrow> [[x]]))"

text \<open>
  \<^verbatim>\<open>s.strip()\<close>: the ASCII characters for which \<^verbatim>\<open>str.isspace\<close> holds (tab, line
  feed, vertical tab, form feed, carriage return, the separators 28 to 31 and the space)
  are removed from both ends.
\<close>

definition isspace :: "char \<Rightarrow> bool" where
  "isspace c = (let n = (of_char c :: nat) in (9 \<le> n \<and> n \<le> 13) \<or> (28 \<le> n \<and> n \<le> 32))"

definition strip :: "string \<Rightarrow> string" where
  "strip s = rev (dropWhile isspace (rev (dropWhile isspace s)))"

section \<open>The simulation progress estimator\<close>

text \<open>
  \<^verbatim>\<open>CFDSimulation._parse_log_progress\<close>. The builtin \<^verbatim>\<open>float\<close> on a string is the
  parameter \<open>float_of\<close> (\<open>None\<close> when it raises \<^verbatim>\<open>ValueError\<close>); \<open>readlines\<close> is the result
  of \<^verbatim>\<open>f.readlines()\<close>, \<open>None\<close> when opening or reading the file raises.

  The loop over the lines: a line starting with \<^verbatim>\<open>Time =\<close> contributes the float after
  its first \<^verbatim>\<open>=\<close>; a line whose value does not parse is skipped by the inner
  \<^verbatim>\<open>except: pass\<close>.
\<close>

fun time_steps :: "(string \<Rightarrow> pyfloat option) \<Rightarrow> string list \<Rightarrow> pyfloat list" where
  "time_steps float_of [] = []"
| "time_steps float_of (line # lines) =
     (if startswith line ''Time ='' then
        (case split_chr CHR ''='' line of
           _ # piece # _ \<Rightarrow>
             (case float_of (strip piece) of
                Some time_val \<Rightarrow> time_val # time_steps float_of lines
              | None \<Rightarrow> time_steps float_of lines)
         | _ \<Rightarrow> time_steps float_of lines)
      else time_steps float_of lines)"

definition parse_log_progress ::
    "(string \<Rightarrow> pyfloat option) \<Rightarrow> json \<Rightarrow> string list option \<Rightarrow> pyfloat" where
  "parse_log_progress float_of config readlines =
     (case readlines of
        None \<Rightarrow> Fin 0
      | Some lines \<Rightarrow>
          (let steps = time_steps float_of lines in
           if steps \<noteq> [] then
             (case config_get config ''simulation_time'' (JNum (Fin 1000)) of
                Inl e \<Rightarrow> Fin 0
              | Inr end_time \<Rightarrow>
                  (case py_truediv (last steps) end_time of
                     Inl e \<Rightarrow> Fin 0
                   | Inr ratio \<Rightarrow> py_min ratio (Fin 1)))
           else Fin 0))"

text \<open>
  A parser that agrees with \<^verbatim>\<open>float\<close> on plain decimal integer literals with an optional
  minus sign; it is used to evaluate the model on concrete logs and directory names made
  of such literals only.
\<close>

definition digit_val :: "char \<Rightarrow> nat option" where
  "digit_val c = (let n = (of_char c :: nat) in if 48 \<le> n \<and> n \<le> 57 then Some (n - 48) else None)"

fun digits_val :: "nat \<Rightarrow> string \<Rightarrow> nat option" where
  "digits_val acc [] = Some acc"
| "digits_val acc (c # cs) =
     (case digit_val c of None \<Rightarrow> None | Some d \<Rightarrow> digits_val (10 * acc + d) cs)"

definition int_literal :: "string \<Rightarrow> pyfloat option" where
  "int_literal s =
     (case s of
        [] \<Rightarrow> None
      | c # cs \<Rightarrow>
          if c = CHR ''-'' then
            (if cs = [] then None else map_option (\<lambda>n. Fin (- of_nat n)) (digits_val 0 cs))
          else map_option (\<lambda>n. Fin (of_nat n)) (digits_val 0 s))"

lemma int_literal_examples:
  "int_literal ''101'' = Some (Fin 101)" "int_literal ''-5'' = Some (Fin (- 5))"
  "int_literal ''0'' = Some (Fin 0)" "int_literal ''constant'' = None"
  by (simp_all add: int_literal_def digit_val_def)


text \<open>The closed interval from 0 to 1, as a test on a float.\<close>

fun in_unit_interval :: "pyfloat \<Rightarrow> bool" where
  "in_unit_interval (Fin r) = (0 \<le> r \<and> r \<le> 1)"
| "in_unit_interval _ = False"

section \<open>Job records and the effects of a runner\<close>

text \<open>
  The attributes that \<^verbatim>\<open>CFDSimulation.__init__\<close> and
  \<^verbatim>\<open>MeshGenerationJob.__init__\<close> set. The directories are functions of the id
  (\<open>case_dir\<close>, \<open>result_dir\<close>, \<open>mesh_dir\<close> below). Timestamps are the values of
  \<^verbatim>\<open>time.time()\<close>.
\<close>

record job =
  jid :: string
  config :: json
  status :: string
  progress :: int
  error :: "string option"
  start_time :: "rat option"
  end_time :: "rat option"

record mesh_job = job +
  geometry_file :: string
  mesh_stats :: "(string \<times> int) list option"

definition CFDSimulation :: "string \<Rightarrow> json \<Rightarrow> job" where
  "CFDSimulation simulation_id cfg =
     \<lparr>jid = simulation_id, config = cfg, status = ''queued'', progress = 0, error = None,
      start_time = None, end_time = None\<rparr>"

definition MeshGenerationJob :: "string \<Rightarrow> string \<Rightarrow> json \<Rightarrow> mesh_job" where
  "MeshGenerationJob job_id geometry cfg =
     \<lparr>jid = job_id, config = cfg, status = ''queued'', progress = 0, error = None,
      start_time = None, end_time = None, geometry_file = geometry, mesh_stats = None\<rparr>"

text \<open>Paths are lists of components below the root.\<close>

type_synonym path = "string list"

definition CASES_DIR :: path where "CASES_DIR = [''cases'']"
definition MESHES_DIR :: path where "MESHES_DIR = [''meshes'']"
definition RESULTS_DIR :: path where "RESULTS_DIR = [''results'']"
definition GEOMETRIES_DIR :: path where "GEOMETRIES_DIR = [''geometries'']"

definition case_dir :: "string \<Rightarrow> path" where
  "case_dir simulation_id = CASES_DIR @ [simulation_id]"

definition result_dir :: "string \<Rightarrow> path" where
  "result_dir simulation_id = RESULTS_DIR @ [simulation_id]"

definition mesh_dir :: "string \<Rightarrow> path" where
  "mesh_dir job_id = MESHES_DIR @ [job_id]"

definition mesh_case_dir :: "string \<Rightarrow> path" where
  "mesh_case_dir job_id = mesh_dir job_id @ [''case'']"

text \<open>
  One assignment to an attribute of the job object. Each is atomic for the other threads
  of the server, which read the same object.
\<close>

datatype upd =
    Status string
  | Progress int
  | Error string
  | StartTime rat
  | EndTime rat

fun assign :: "upd \<Rightarrow> ('a job_scheme) \<Rightarrow> ('a job_scheme)" where
  "assign (Status s) j = j\<lparr>status := s\<rparr>"
| "assign (Progress p) j = j\<lparr>progress := p\<rparr>"
| "assign (Error m) j = j\<lparr>error := Some m\<rparr>"
| "assign (StartTime t) j = j\<lparr>start_time := Some t\<rparr>"
| "assign (EndTime t) j = j\<lparr>end_time := Some t\<rparr>"

text \<open>
  What a runner thread does that other threads or other jobs can see, in program order:
  a write to its job object, \<^verbatim>\<open>os.chdir\<close> (the working directory belongs to the whole
  server process), the launch of an external command (with the \<^verbatim>\<open>cwd=\<close> argument when
  the call passes one), a file copied into the result tree, and the assignment of
  \<^verbatim>\<open>mesh_stats\<close>.
\<close>

datatype effect =
    Write upd
  | Chdir path
  | Spawn string "path option"
  | Copy path path
  | StatsWrite "(string \<times> int) list"

text \<open>
  A method run is the list of its effects and how it ended: it returned a value, it
  raised, or it is still inside its monitoring loop after the number of polls that the
  run was observed for.
\<close>

datatype 'a outcome = Ret 'a | Raise exn | Pending

type_synonym 'a run = "effect list \<times> 'a outcome"

definition ret :: "'a \<Rightarrow> 'a run" where
  "ret x = ([], Ret x)"

definition emit :: "effect \<Rightarrow> unit run" where
  "emit e = ([e], Ret ())"

text \<open>A call into the operating system or a library that either succeeds or raises.\<close>

definition ext :: "exn option \<Rightarrow> unit run" where
  "ext r = (case r of None \<Rightarrow> ([], Ret ()) | Some e \<Rightarrow> ([], Raise e))"

definition bind :: "'a run \<Rightarrow> ('a \<Rightarrow> 'b run) \<Rightarrow> 'b run" where
  "bind m f =
     (case m of
        (es, Ret x) \<Rightarrow> (case f x of (es', r) \<Rightarrow> (es @ es', r))
      | (es, Raise e) \<Rightarrow> (es, Raise e)
      | (es, Pending) \<Rightarrow> (es, Pending))"

definition thn :: "unit run \<Rightarrow> 'a run \<Rightarrow> 'a run" where
  "thn m k = bind m (\<lambda>_. k)"

fun seq :: "unit run list \<Rightarrow> unit run" where
  "seq [] = ret ()"
| "seq (m # ms) = thn m (seq ms)"

text \<open>\<^verbatim>\<open>try: body except Exception as e: handler\<close>.\<close>

definition catch :: "'a run \<Rightarrow> (exn \<Rightarrow> 'a run) \<Rightarrow> 'a run" where
  "catch m h =
     (case m of
        (es, Raise e) \<Rightarrow> (case h e of (es', r) \<Rightarrow> (es @ es', r))
      | other \<Rightarrow> other)"

text \<open>The job object after the writes among a list of effects.\<close>

fun apply_effect :: "effect \<Rightarrow> ('a job_scheme) \<Rightarrow> ('a job_scheme)" where
  "apply_effect (Write u) j = assign u j"
| "apply_effect _ j = j"


fun statuses :: "effect list \<Rightarrow> string list" where
  "statuses [] = []"
| "statuses (Write (Status s) # es) = s # statuses es"
| "statuses (_ # es) = statuses es"

fun progresses :: "effect list \<Rightarrow> int list" where
  "progresses [] = []"
| "progresses (Write (Progress p) # es) = p # progresses es"
| "progresses (_ # es) = progresses es"


text \<open>A call that returns a value or raises.\<close>

definition ext_val :: "exn + 'a \<Rightarrow> 'a run" where
  "ext_val r = (case r of Inl e \<Rightarrow> ([], Raise e) | Inr x \<Rightarrow> ([], Ret x))"

text \<open>\<^verbatim>\<open>shutil.copy\<close> and \<^verbatim>\<open>shutil.copytree\<close>: the copy is an effect when the call does not raise.\<close>

definition copy_to :: "exn option \<Rightarrow> path \<Rightarrow> path \<Rightarrow> unit run" where
  "copy_to r src dst = thn (ext r) (emit (Copy src dst))"

text \<open>\<^verbatim>\<open>MESHES_DIR / mesh_id\<close>: a path joins with a string only.\<close>

fun path_div :: "json \<Rightarrow> exn + string" where
  "path_div (JStr s) = Inr s"
| "path_div v =
     Inl (TypeError (''unsupported operand type(s) for /: '' @ quoted ''PosixPath'' @ '' and '' @
       quoted (type_name v)))"

section \<open>The simulation job\<close>

text \<open>
  Everything a run of \<^verbatim>\<open>run_simulation_thread\<close> asks of its surroundings, one field per
  call site of \<^verbatim>\<open>cfd-server.py\<close>:
  \<^item> \<open>py_float\<close>: the builtin \<^verbatim>\<open>float\<close> on a string;
  \<^item> \<open>mkdir_case\<close>: the four \<^verbatim>\<open>mkdir\<close> calls of \<^verbatim>\<open>setup_case\<close>;
  \<^item> \<open>write_inputs\<close>: the \<^verbatim>\<open>write_text\<close> calls of the six \<^verbatim>\<open>_create_*\<close> methods (the
    text of the dictionaries is not modelled);
  \<^item> \<open>mesh_dir_exists\<close>, \<open>copy_mesh\<close>: \<^verbatim>\<open>mesh_dir.exists()\<close> and \<^verbatim>\<open>shutil.copytree\<close>, by
    mesh id;
  \<^item> \<open>clock_start\<close>, \<open>clock_end\<close>: the two \<^verbatim>\<open>time.time()\<close> calls of \<^verbatim>\<open>run_simulation\<close>;
  \<^item> \<open>os_chdir\<close>, \<open>check_mesh\<close> (the return code of \<^verbatim>\<open>checkMesh\<close>), \<open>open_log\<close>,
    \<open>popen\<close>;
  \<^item> \<open>poll k\<close>: the value of \<^verbatim>\<open>process.poll()\<close> at its \<open>k\<close>-th evaluation (\<open>None\<close>
    while the solver runs, its return code afterwards), and \<open>log_lines k\<close>: what the
    \<open>k\<close>-th \<^verbatim>\<open>_parse_log_progress\<close> reads from the log;
  \<^item> the calls of \<^verbatim>\<open>_post_process\<close>: \<open>mkdir_result\<close>, \<open>write_sample_dict\<close>,
    \<open>run_post_process\<close>, \<open>forces_exists\<close>, \<open>copy_forces\<close>, \<open>iterdir\<close> (the entries of the
    case directory with their \<^verbatim>\<open>is_dir()\<close>), \<open>mkdir_result_time\<close>, \<open>src_time_exists\<close>,
    \<open>field_exists\<close>, \<open>copy_field\<close>.
  \<open>None\<close> (or \<open>Inr\<close>) means that the call returns, \<open>Some e\<close> (or \<open>Inl e\<close>) that it raises \<open>e\<close>.
\<close>

record sim_env =
  py_float :: "string \<Rightarrow> pyfloat option"
  mkdir_case :: "exn option"
  write_inputs :: "exn option"
  mesh_dir_exists :: "string \<Rightarrow> bool"
  copy_mesh :: "string \<Rightarrow> exn option"
  clock_start :: rat
  os_chdir :: "exn option"
  check_mesh :: "exn + int"
  open_log :: "exn option"
  popen :: "exn option"
  poll :: "nat \<Rightarrow> int option"
  log_lines :: "nat \<Rightarrow> string list option"
  mkdir_result :: "exn option"
  write_sample_dict :: "exn option"
  run_post_process :: "exn option"
  forces_exists :: bool
  copy_forces :: "exn option"
  iterdir :: "exn + (string \<times> bool) list"
  mkdir_result_time :: "exn option"
  src_time_exists :: bool
  field_exists :: "string \<Rightarrow> bool"
  copy_field :: "string \<Rightarrow> exn option"
  clock_end :: rat

text \<open>The two assignments of every \<^verbatim>\<open>except\<close> handler and of the two early returns.\<close>

definition fail_with :: "string \<Rightarrow> bool run" where
  "fail_with msg = thn (seq [emit (Write (Error msg)), emit (Write (Status ''failed''))]) (ret False)"

text \<open>\<^verbatim>\<open>CFDSimulation.setup_case\<close>.\<close>

definition setup_case :: "sim_env \<Rightarrow> string \<Rightarrow> json \<Rightarrow> bool run" where
  "setup_case env sid cfg =
     catch
       (thn (seq [emit (Write (Status ''setting_up'')),
                  ext (mkdir_case env),
                  thn (bind (ext_val (config_get cfg ''wind_speed'' (JNum (Fin 10)))) (\<lambda>_. ret ()))
                      (ext (write_inputs env))])
          (bind (ext_val (config_get cfg ''mesh_id'' JNull)) (\<lambda>mesh_id.
             thn (if truthy mesh_id then
                    bind (ext_val (path_div mesh_id)) (\<lambda>name.
                      if mesh_dir_exists env name then
                        copy_to (copy_mesh env name)
                          (MESHES_DIR @ [name, ''constant'', ''polyMesh''])
                          (case_dir sid @ [''constant'', ''polyMesh''])
                      else ret ())
                  else ret ())
               (thn (emit (Write (Progress 20))) (ret True)))))
       (\<lambda>e. fail_with (''Setup failed: '' @ str_exn e))"

text \<open>
  The monitoring loop of \<^verbatim>\<open>run_simulation\<close>, from its \<open>k\<close>-th evaluation of
  \<^verbatim>\<open>process.poll()\<close> on, followed for at most \<open>fuel\<close> evaluations. It yields the return
  code of the solver. \<open>scaled_progress\<close> is \<^verbatim>\<open>int(progress * 0.4)\<close> in round \<open>k\<close>.
\<close>

definition scaled_progress :: "sim_env \<Rightarrow> json \<Rightarrow> nat \<Rightarrow> exn + int" where
  "scaled_progress env cfg k =
     py_int (pf_times_04 (parse_log_progress (py_float env) cfg (log_lines env k)))"

fun monitor :: "sim_env \<Rightarrow> json \<Rightarrow> nat \<Rightarrow> nat \<Rightarrow> int run" where
  "monitor env cfg 0 k = ([], Pending)"
| "monitor env cfg (Suc fuel) k =
     (case poll env k of
        Some returncode \<Rightarrow> ret returncode
      | None \<Rightarrow>
          bind (ext_val (scaled_progress env cfg k))
            (\<lambda>n. thn (emit (Write (Progress (50 + n)))) (monitor env cfg fuel (Suc k))))"

text \<open>
  \<^verbatim>\<open>CFDSimulation._get_latest_time\<close>. Tuples compare as in Python (first components
  that are equal pass the decision to the names). \<^verbatim>\<open>sort(reverse=True)\<close> is a stable
  descending insertion sort here; where keys are unordered among themselves (a directory
  named \<^verbatim>\<open>nan\<close>) the order that the interpreter's sort leaves can differ.
\<close>

fun time_dirs :: "(string \<Rightarrow> pyfloat option) \<Rightarrow> (string \<times> bool) list \<Rightarrow> (pyfloat \<times> string) list" where
  "time_dirs float_of [] = []"
| "time_dirs float_of ((name, is_dir) # items) =
     (if is_dir then
        (case float_of name of
           Some time_val \<Rightarrow> (time_val, name) # time_dirs float_of items
         | None \<Rightarrow> time_dirs float_of items)
      else time_dirs float_of items)"

definition tuple_less :: "pyfloat \<times> string \<Rightarrow> pyfloat \<times> string \<Rightarrow> bool" where
  "tuple_less a b =
     (if fst a = fst b \<and> fst a \<noteq> NaN then snd a < snd b else pf_less (fst a) (fst b))"

fun insert_desc :: "pyfloat \<times> string \<Rightarrow> (pyfloat \<times> string) list \<Rightarrow> (pyfloat \<times> string) list" where
  "insert_desc x [] = [x]"
| "insert_desc x (y # ys) = (if tuple_less x y then y # insert_desc x ys else x # y # ys)"

definition sort_reverse :: "(pyfloat \<times> string) list \<Rightarrow> (pyfloat \<times> string) list" where
  "sort_reverse xs = foldr insert_desc xs []"

definition get_latest_time :: "(string \<Rightarrow> pyfloat option) \<Rightarrow> (string \<times> bool) list \<Rightarrow> string option" where
  "get_latest_time float_of items =
     (case sort_reverse (time_dirs float_of items) of
        [] \<Rightarrow> None
      | (time_val, name) # _ \<Rightarrow> Some name)"

text \<open>\<^verbatim>\<open>CFDSimulation._sample_fields\<close> and \<^verbatim>\<open>CFDSimulation._extract_forces\<close>.\<close>

definition sample_fields :: "sim_env \<Rightarrow> string \<Rightarrow> unit run" where
  "sample_fields env sid =
     seq [ext (write_sample_dict env),
          ext (run_post_process env),
          emit (Spawn ''postProcess'' (Some (case_dir sid)))]"

definition extract_forces :: "sim_env \<Rightarrow> string \<Rightarrow> unit run" where
  "extract_forces env sid =
     (if forces_exists env then
        copy_to (copy_forces env)
          (case_dir sid @ [''postProcessing'', ''forceCoeffs'', ''0'', ''forceCoeffs.dat''])
          (result_dir sid @ [''forceCoeffs.dat''])
      else ret ())"

text \<open>The loop over the four field files in \<^verbatim>\<open>_post_process\<close>.\<close>

definition copy_field_file :: "sim_env \<Rightarrow> string \<Rightarrow> string \<Rightarrow> string \<Rightarrow> unit run" where
  "copy_field_file env sid latest_time field_file =
     (if field_exists env field_file then
        copy_to (copy_field env field_file)
          (case_dir sid @ [latest_time, field_file])
          (result_dir sid @ [latest_time, field_file])
      else ret ())"

text \<open>\<^verbatim>\<open>CFDSimulation._post_process\<close>.\<close>

definition post_process :: "sim_env \<Rightarrow> string \<Rightarrow> unit run" where
  "post_process env sid =
     seq [ext (mkdir_result env),
          sample_fields env sid,
          extract_forces env sid,
          bind (ext_val (iterdir env)) (\<lambda>items.
            case get_latest_time (py_float env) items of
              None \<Rightarrow> ret ()
            | Some latest_time \<Rightarrow>
                if latest_time \<noteq> [] then
                  thn (ext (mkdir_result_time env))
                    (if src_time_exists env then
                       seq (map (copy_field_file env sid latest_time)
                              [''U'', ''p'', ''k'', ''epsilon''])
                     else ret ())
                else ret ())]"

text \<open>\<^verbatim>\<open>subprocess.run(["checkMesh"], ...)\<close>: no \<^verbatim>\<open>cwd=\<close> argument.\<close>

definition call_check_mesh :: "sim_env \<Rightarrow> int run" where
  "call_check_mesh env =
     bind (ext_val (check_mesh env)) (\<lambda>returncode.
       thn (emit (Spawn ''checkMesh'' None)) (ret returncode))"

text \<open>\<^verbatim>\<open>CFDSimulation.run_simulation\<close>, its monitoring loop followed for \<open>fuel\<close> polls.\<close>

definition run_simulation :: "sim_env \<Rightarrow> string \<Rightarrow> json \<Rightarrow> nat \<Rightarrow> bool run" where
  "run_simulation env sid cfg fuel =
     catch
       (thn (seq [emit (Write (Status ''running'')),
                  emit (Write (StartTime (clock_start env))),
                  emit (Write (Progress 40)),
                  ext (os_chdir env),
                  emit (Chdir (case_dir sid)),
                  emit (Write (Progress 45))])
          (bind (call_check_mesh env) (\<lambda>returncode.
             if returncode \<noteq> 0 then fail_with ''Mesh check failed''
             else
               thn (seq [emit (Write (Progress 50)),
                         ext (open_log env),
                         ext (popen env),
                         emit (Spawn ''simpleFoam'' None)])
                 (bind (monitor env cfg fuel 0) (\<lambda>returncode.
                    if returncode \<noteq> 0 then fail_with ''Simulation failed''
                    else
                      thn (seq [emit (Write (Progress 90)),
                                emit (Write (Status ''post_processing'')),
                                post_process env sid,
                                emit (Write (Progress 100)),
                                emit (Write (Status ''completed'')),
                                emit (Write (EndTime (clock_end env)))])
                        (ret True))))))
       (\<lambda>e. fail_with (''Simulation error: '' @ str_exn e))"

text \<open>\<^verbatim>\<open>run_simulation_thread\<close>; the value is that of the last method it called.\<close>

definition run_simulation_thread :: "sim_env \<Rightarrow> string \<Rightarrow> json \<Rightarrow> nat \<Rightarrow> bool run" where
  "run_simulation_thread env sid cfg fuel =
     bind (setup_case env sid cfg) (\<lambda>ok.
       if ok then run_simulation env sid cfg fuel else ret False)"


section \<open>The mesh generation job\<close>

text \<open>Decimal digits of a natural number, for the message of \<^verbatim>\<open>CalledProcessError\<close>.\<close>

fun show_nat :: "nat \<Rightarrow> string" where
  "show_nat n =
     (if n < 10 then [char_of (48 + n)]
      else show_nat (n div 10) @ [char_of (48 + n mod 10)])"

definition show_int :: "int \<Rightarrow> string" where
  "show_int i = (if i < 0 then CHR ''-'' # show_nat (nat (- i)) else show_nat (nat i))"

text \<open>
  \<^verbatim>\<open>subprocess.run([cmd], capture_output=True, check=True)\<close> without \<^verbatim>\<open>cwd=\<close>: the call
  raises when the command cannot be launched and, because of \<^verbatim>\<open>check=True\<close>, when it
  exits with a non-zero code.
\<close>

definition run_checked :: "string \<Rightarrow> exn + int \<Rightarrow> unit run" where
  "run_checked cmd r =
     bind (ext_val r) (\<lambda>returncode.
       thn (emit (Spawn cmd None))
         (if returncode \<noteq> 0 then
            ([], Raise (CalledProcessError
               (''Command '' @ quoted (''['' @ quoted cmd @ '']'') @
                '' returned non-zero exit status '' @ show_int returncode @ ''.'')))
          else ret ()))"

text \<open>
  \<^verbatim>\<open>Path.suffix\<close> of the last component of a file name, and \<^verbatim>\<open>str.lower\<close> on ASCII
  letters.
\<close>

definition last_component :: "string \<Rightarrow> string" where
  "last_component s = last (split_chr CHR ''/'' s)"

definition suffix_of :: "string \<Rightarrow> string" where
  "suffix_of s =
     (let name = last_component s;
          stem = rev (drop 1 (dropWhile (\<lambda>c. c \<noteq> CHR ''.'') (rev name)));
          tail = drop (length stem) name
      in if CHR ''.'' \<in> set name \<and> stem \<noteq> [] \<and> tail \<noteq> ''.'' then tail else [])"

definition lower_chr :: "char \<Rightarrow> char" where
  "lower_chr c =
     (let n = (of_char c :: nat) in if 65 \<le> n \<and> n \<le> 90 then char_of (n + 32) else c)"

definition lower :: "string \<Rightarrow> string" where
  "lower s = map lower_chr s"

text \<open>
  What a run of \<^verbatim>\<open>run_mesh_generation_thread\<close> asks of its surroundings, by call site of
  \<^verbatim>\<open>mesh-server.py\<close>:
  \<^item> \<open>mkdir_mesh\<close>: the six \<^verbatim>\<open>mkdir\<close> calls of \<^verbatim>\<open>setup_case\<close>;
  \<^item> \<open>geometry_exists\<close>: whether the file is in the geometry directory; \<^verbatim>\<open>trimesh.load\<close>
    raises \<^verbatim>\<open>ValueError\<close> for a path that is not a file; \<open>convert_geometry\<close>: loading,
    flattening and exporting an existing file;
  \<^item> \<open>write_dicts\<close>: the arithmetic on the bounds and the three \<^verbatim>\<open>write_text\<close> calls of the
    \<^verbatim>\<open>_create_*\<close> methods;
  \<^item> \<open>generate_start\<close>, \<open>generate_end\<close>: the first and last \<^verbatim>\<open>time.time()\<close> of
    \<^verbatim>\<open>generate_mesh\<close>; \<open>clock_at k\<close>: the one in the \<open>k\<close>-th round of the loop;
  \<^item> \<open>mesh_chdir\<close>, \<open>block_mesh\<close>, \<open>surface_features\<close>, \<open>open_snappy_log\<close>,
    \<open>popen_snappy\<close>, \<open>snappy_poll\<close>, \<open>mesh_check\<close> (the last \<^verbatim>\<open>checkMesh\<close>;
    its return code is not looked at);
  \<^item> \<open>parsed_stats\<close>: the dictionary that \<^verbatim>\<open>_parse_mesh_stats\<close> builds from the output of
    \<^verbatim>\<open>checkMesh\<close> (the method cannot raise; its parsing is not modelled);
  \<^item> \<open>polymesh_exists\<close>, \<open>copy_polymesh\<close>: \<^verbatim>\<open>_copy_mesh\<close>.
\<close>

record mesh_env =
  mkdir_mesh :: "exn option"
  geometry_exists :: "string \<Rightarrow> bool"
  convert_geometry :: "string \<Rightarrow> exn option"
  write_dicts :: "exn option"
  generate_start :: rat
  mesh_chdir :: "exn option"
  block_mesh :: "exn + int"
  surface_features :: "exn + int"
  open_snappy_log :: "exn option"
  popen_snappy :: "exn option"
  snappy_poll :: "nat \<Rightarrow> int option"
  clock_at :: "nat \<Rightarrow> rat"
  mesh_check :: "exn option"
  parsed_stats :: "(string \<times> int) list"
  polymesh_exists :: bool
  copy_polymesh :: "exn option"
  generate_end :: rat

text \<open>\<^verbatim>\<open>MeshGenerationJob._convert_geometry_to_stl\<close>.\<close>

definition convert_geometry_to_stl :: "mesh_env \<Rightarrow> string \<Rightarrow> string \<Rightarrow> unit run" where
  "convert_geometry_to_stl env job_id geometry =
     (if lower (suffix_of geometry) \<in> set [''.stl'', ''.obj'', ''.ply'', ''.glb'', ''.gltf''] then
        (if geometry_exists env geometry then
           copy_to (convert_geometry env geometry)
             (GEOMETRIES_DIR @ [geometry])
             (mesh_case_dir job_id @ [''constant'', ''triSurface'', ''building.stl''])
         else ([], Raise (ValueError (''string is not a file: /geometries/'' @ geometry))))
      else ([], Raise (ValueError (''Unsupported geometry format: '' @ suffix_of geometry))))"

text \<open>\<^verbatim>\<open>MeshGenerationJob.setup_case\<close>.\<close>

definition mesh_setup_case :: "mesh_env \<Rightarrow> string \<Rightarrow> string \<Rightarrow> json \<Rightarrow> bool run" where
  "mesh_setup_case env job_id geometry cfg =
     catch
       (thn (seq [emit (Write (Status ''setting_up'')),
                  ext (mkdir_mesh env),
                  convert_geometry_to_stl env job_id geometry,
                  bind (ext_val (config_get cfg ''domain_factor'' (JNum (Fin 5)))) (\<lambda>_. ret ()),
                  ext (write_dicts env),
                  emit (Write (Progress 20))])
          (ret True))
       (\<lambda>e. fail_with (''Setup failed: '' @ str_exn e))"

text \<open>
  The loop of \<^verbatim>\<open>generate_mesh\<close>:
  \<^verbatim>\<open>self.progress = min(50 + int((time.time() - self.start_time) / 10) * 5, 85)\<close>.
\<close>

definition elapsed_progress :: "rat \<Rightarrow> rat \<Rightarrow> int" where
  "elapsed_progress now started = min (50 + trunc ((now - started) / 10) * 5) 85"

fun mesh_monitor :: "mesh_env \<Rightarrow> nat \<Rightarrow> nat \<Rightarrow> int run" where
  "mesh_monitor env 0 k = ([], Pending)"
| "mesh_monitor env (Suc fuel) k =
     (case snappy_poll env k of
        Some returncode \<Rightarrow> ret returncode
      | None \<Rightarrow>
          thn (emit (Write (Progress (elapsed_progress (clock_at env k) (generate_start env)))))
            (mesh_monitor env fuel (Suc k)))"

text \<open>\<^verbatim>\<open>MeshGenerationJob._copy_mesh\<close>.\<close>

definition copy_mesh_out :: "mesh_env \<Rightarrow> string \<Rightarrow> unit run" where
  "copy_mesh_out env job_id =
     (if polymesh_exists env then
        copy_to (copy_polymesh env)
          (mesh_case_dir job_id @ [''constant'', ''polyMesh''])
          (mesh_dir job_id @ [''constant'', ''polyMesh''])
      else ret ())"

text \<open>\<^verbatim>\<open>MeshGenerationJob.generate_mesh\<close>, its loop followed for \<open>fuel\<close> polls.\<close>

definition generate_mesh :: "mesh_env \<Rightarrow> string \<Rightarrow> nat \<Rightarrow> bool run" where
  "generate_mesh env job_id fuel =
     catch
       (thn (seq [emit (Write (Status ''generating'')),
                  emit (Write (StartTime (generate_start env))),
                  ext (mesh_chdir env),
                  emit (Chdir (mesh_case_dir job_id)),
                  emit (Write (Progress 30)),
                  run_checked ''blockMesh'' (block_mesh env),
                  emit (Write (Progress 40)),
                  run_checked ''surfaceFeatureExtract'' (surface_features env),
                  emit (Write (Progress 50)),
                  ext (open_snappy_log env),
                  ext (popen_snappy env),
                  emit (Spawn ''snappyHexMesh'' None)])
          (bind (mesh_monitor env fuel 0) (\<lambda>returncode.
             if returncode \<noteq> 0 then fail_with ''snappyHexMesh failed''
             else
               thn (seq [emit (Write (Progress 90)),
                         ext (mesh_check env),
                         emit (Spawn ''checkMesh'' None),
                         emit (StatsWrite (parsed_stats env)),
                         copy_mesh_out env job_id,
                         emit (Write (Progress 100)),
                         emit (Write (Status ''completed'')),
                         emit (Write (EndTime (generate_end env)))])
                 (ret True))))
       (\<lambda>e. fail_with (''Mesh generation failed: '' @ str_exn e))"

text \<open>\<^verbatim>\<open>run_mesh_generation_thread\<close>.\<close>

definition run_mesh_generation_thread ::
    "mesh_env \<Rightarrow> string \<Rightarrow> string \<Rightarrow> json \<Rightarrow> nat \<Rightarrow> bool run" where
  "run_mesh_generation_thread env job_id geometry cfg fuel =
     bind (mesh_setup_case env job_id geometry cfg) (\<lambda>ok.
       if ok then generate_mesh env job_id fuel else ret False)"

text \<open>The mesh job object after the effects of its runner.\<close>

fun apply_mesh_effect :: "effect \<Rightarrow> mesh_job \<Rightarrow> mesh_job" where
  "apply_mesh_effect (StatsWrite st) j = j\<lparr>mesh_stats := Some st\<rparr>"
| "apply_mesh_effect e j = apply_effect e j"

definition mesh_job_after :: "effect list \<Rightarrow> mesh_job \<Rightarrow> mesh_job" where
  "mesh_job_after es j = foldl (\<lambda>j e. apply_mesh_effect e j) j es"

section \<open>The HTTP handlers\<close>

text \<open>
  The module-level dictionaries \<^verbatim>\<open>active_simulations\<close> and \<^verbatim>\<open>mesh_jobs\<close>. A handler
  takes the dictionary and returns it with the response (\<^verbatim>\<open>jsonify(body), code\<close>).
  A create handler also takes the value of \<^verbatim>\<open>str(uuid.uuid4())\<close> and the outcome of
  evaluating \<^verbatim>\<open>request.json\<close> (a value, \<open>JNull\<close> for \<^verbatim>\<open>None\<close>, or an exception). The
  thread it starts runs \<open>run_simulation_thread\<close> (or \<open>run_mesh_generation_thread\<close>) on
  the object it has stored.
\<close>

type_synonym registry = "string \<Rightarrow> job option"
type_synonym mesh_registry = "string \<Rightarrow> mesh_job option"

datatype response = Response nat json

text \<open>\<^verbatim>\<open>p in s\<close> for two strings.\<close>

fun contains :: "string \<Rightarrow> string \<Rightarrow> bool" where
  "contains [] p = (p = [])"
| "contains (c # cs) p = (startswith (c # cs) p \<or> contains cs p)"

text \<open>\<^verbatim>\<open>field in config\<close> for a string \<open>field\<close> and an arbitrary object.\<close>

fun py_in :: "string \<Rightarrow> json \<Rightarrow> exn + bool" where
  "py_in field (JObj kvs) = Inr (map_of kvs field \<noteq> None)"
| "py_in field (JArr xs) = Inr (List.member xs (JStr field))"
| "py_in field (JStr s) = Inr (contains s field)"
| "py_in field v =
     Inl (TypeError (''argument of type '' @ quoted (type_name v) @ '' is not iterable''))"

text \<open>The validation loop of \<^verbatim>\<open>start_simulation\<close>: the first field that is not in the config.\<close>

fun first_missing :: "json \<Rightarrow> string list \<Rightarrow> exn + string option" where
  "first_missing cfg [] = Inr None"
| "first_missing cfg (field # rest) =
     (case py_in field cfg of
        Inl e \<Rightarrow> Inl e
      | Inr present \<Rightarrow> if present then first_missing cfg rest else Inr (Some field))"

definition error_body :: "string \<Rightarrow> json" where
  "error_body msg = JObj [(''error'', JStr msg)]"

text \<open>\<^verbatim>\<open>start_simulation\<close> (\<^verbatim>\<open>POST /api/simulate\<close>).\<close>

definition start_simulation ::
    "registry \<Rightarrow> string \<Rightarrow> exn + json \<Rightarrow> response \<times> registry" where
  "start_simulation active_simulations sim_id request_json =
     (case request_json of
        Inl e \<Rightarrow> (Response 500 (error_body (str_exn e)), active_simulations)
      | Inr cfg \<Rightarrow>
          (case first_missing cfg [''wind_speed'', ''mesh_id''] of
             Inl e \<Rightarrow> (Response 500 (error_body (str_exn e)), active_simulations)
           | Inr (Some field) \<Rightarrow>
               (Response 400 (error_body (''Missing required field: '' @ field)),
                active_simulations)
           | Inr None \<Rightarrow>
               (Response 202 (JObj [(''simulation_id'', JStr sim_id), (''status'', JStr ''queued'')]),
                active_simulations(sim_id \<mapsto> CFDSimulation sim_id cfg))))"

text \<open>\<^verbatim>\<open>data["geometry_file"]\<close>.\<close>

fun subscript :: "json \<Rightarrow> string \<Rightarrow> exn + json" where
  "subscript (JObj kvs) key =
     (case map_of kvs key of None \<Rightarrow> Inl (KeyError (quoted key)) | Some v \<Rightarrow> Inr v)"
| "subscript (JArr xs) key = Inl (TypeError ''list indices must be integers or slices, not str'')"
| "subscript (JStr s) key = Inl (TypeError (''string indices must be integers, not '' @ quoted ''str''))"
| "subscript v key = Inl (TypeError (quoted (type_name v) @ '' object is not subscriptable''))"

text \<open>
  \<^verbatim>\<open>generate_mesh\<close> of \<^verbatim>\<open>mesh-server.py\<close> (\<^verbatim>\<open>POST /api/mesh/generate\<close>); \<open>file_exists\<close>
  answers \<^verbatim>\<open>(GEOMETRIES_DIR / geometry_file).exists()\<close>.
\<close>

definition generate_mesh_handler ::
    "(string \<Rightarrow> bool) \<Rightarrow> mesh_registry \<Rightarrow> string \<Rightarrow> exn + json \<Rightarrow> response \<times> mesh_registry" where
  "generate_mesh_handler file_exists mesh_jobs job_id request_json =
     (case request_json of
        Inl e \<Rightarrow> (Response 500 (error_body (str_exn e)), mesh_jobs)
      | Inr data \<Rightarrow>
          (case py_in ''geometry_file'' data of
             Inl e \<Rightarrow> (Response 500 (error_body (str_exn e)), mesh_jobs)
           | Inr present \<Rightarrow>
               if \<not> present then (Response 400 (error_body ''geometry_file required''), mesh_jobs)
               else
                 (case subscript data ''geometry_file'' of
                    Inl e \<Rightarrow> (Response 500 (error_body (str_exn e)), mesh_jobs)
                  | Inr geometry \<Rightarrow>
                      (case config_get data ''config'' (JObj []) of
                         Inl e \<Rightarrow> (Response 500 (error_body (str_exn e)), mesh_jobs)
                       | Inr cfg \<Rightarrow>
                           (case path_div geometry of
                              Inl e \<Rightarrow> (Response 500 (error_body (str_exn e)), mesh_jobs)
                            | Inr name \<Rightarrow>
                                if \<not> file_exists name then
                                  (Response 404 (error_body ''Geometry file not found''), mesh_jobs)
                                else
                                  (Response 202
                                     (JObj [(''job_id'', JStr job_id), (''status'', JStr ''queued'')]),
                                   mesh_jobs(job_id \<mapsto> MeshGenerationJob job_id name cfg)))))))"

text \<open>
  \<^verbatim>\<open>CFDSimulation.get_status\<close>; \<open>now\<close> is \<^verbatim>\<open>time.time()\<close>. A start time of 0.0 is a
  false value for \<^verbatim>\<open>if self.start_time:\<close>, and so is an end time of 0.0.
\<close>

definition json_of_time :: "rat option \<Rightarrow> json" where
  "json_of_time t = (case t of None \<Rightarrow> JNull | Some x \<Rightarrow> JNum (Fin x))"

definition duration :: "job \<Rightarrow> rat \<Rightarrow> rat option" where
  "duration j now =
     (case start_time j of
        None \<Rightarrow> None
      | Some started \<Rightarrow>
          if started = 0 then None
          else (case end_time j of
                  None \<Rightarrow> Some (now - started)
                | Some ended \<Rightarrow> if ended = 0 then Some (now - started) else Some (ended - started)))"

definition get_status :: "job \<Rightarrow> rat \<Rightarrow> json" where
  "get_status j now =
     JObj [(''id'', JStr (jid j)),
           (''status'', JStr (status j)),
           (''progress'', JNum (Fin (of_int (progress j)))),
           (''error'', (case error j of None \<Rightarrow> JNull | Some m \<Rightarrow> JStr m)),
           (''duration'', json_of_time (duration j now)),
           (''start_time'', json_of_time (start_time j)),
           (''end_time'', json_of_time (end_time j))]"

text \<open>\<^verbatim>\<open>get_simulation_status\<close> (\<^verbatim>\<open>GET /api/simulate/<sim_id>\<close>).\<close>

definition get_simulation_status ::
    "registry \<Rightarrow> string \<Rightarrow> rat \<Rightarrow> response \<times> registry" where
  "get_simulation_status active_simulations sim_id now =
     (case active_simulations sim_id of
        None \<Rightarrow> (Response 404 (error_body ''Simulation not found''), active_simulations)
      | Some simulation \<Rightarrow> (Response 200 (get_status simulation now), active_simulations))"

text \<open>
  \<^verbatim>\<open>cancel_simulation\<close> (\<^verbatim>\<open>POST /api/simulate/<sim_id>/cancel\<close>): one assignment to the
  status of the stored object, whatever that status is. The mesh server has no such
  route.
\<close>

definition cancel_simulation :: "registry \<Rightarrow> string \<Rightarrow> response \<times> registry" where
  "cancel_simulation active_simulations sim_id =
     (case active_simulations sim_id of
        None \<Rightarrow> (Response 404 (error_body ''Simulation not found''), active_simulations)
      | Some simulation \<Rightarrow>
          (Response 200 (JObj [(''status'', JStr ''cancelled'')]),
           active_simulations(sim_id \<mapsto> assign (Status ''cancelled'') simulation)))"

text \<open>
  What can happen to a stored simulation object, one atomic step at a time: an effect of
  its runner thread, a cancel request, or a status request.
\<close>

datatype event = Runner effect | CancelRequest | StatusRequest

fun step :: "event \<Rightarrow> job \<Rightarrow> job" where
  "step (Runner e) j = apply_effect e j"
| "step CancelRequest j = assign (Status ''cancelled'') j"
| "step StatusRequest j = j"

text \<open>The object as a client can observe it: before the first event and after each one.\<close>

fun history :: "job \<Rightarrow> event list \<Rightarrow> job list" where
  "history j [] = [j]"
| "history j (ev # evs) = j # history (step ev j) evs"

fun runner_part :: "event list \<Rightarrow> effect list" where
  "runner_part [] = []"
| "runner_part (Runner e # evs) = e # runner_part evs"
| "runner_part (_ # evs) = runner_part evs"

section \<open>The server process\<close>

text \<open>
  All runner threads live in one process. \<^verbatim>\<open>os.chdir\<close> sets the working directory of
  that process, and a command launched without \<^verbatim>\<open>cwd=\<close> runs in it. \<open>launched\<close> records
  for each command the job whose runner launched it and the directory it runs in.
\<close>

record process =
  cwd :: path
  launched :: "(string \<times> string \<times> path) list"

fun perform :: "string \<Rightarrow> effect \<Rightarrow> process \<Rightarrow> process" where
  "perform owner (Chdir d) p = p\<lparr>cwd := d\<rparr>"
| "perform owner (Spawn cmd None) p = p\<lparr>launched := launched p @ [(owner, cmd, cwd p)]\<rparr>"
| "perform owner (Spawn cmd (Some d)) p = p\<lparr>launched := launched p @ [(owner, cmd, d)]\<rparr>"
| "perform owner e p = p"

text \<open>
  Two runner threads interleaved: the schedule says, step by step, whether the first
  (\<open>True\<close>) or the second thread performs its next effect; when it ends, or asks a
  finished thread, the rest runs in order.
\<close>

fun interleave ::
    "bool list \<Rightarrow> string \<times> effect list \<Rightarrow> string \<times> effect list \<Rightarrow> (string \<times> effect) list" where
  "interleave sched (a, []) (b, ys) = map (Pair b) ys"
| "interleave sched (a, xs) (b, []) = map (Pair a) xs"
| "interleave [] (a, x # xs) (b, ys) = (a, x) # interleave [] (a, xs) (b, ys)"
| "interleave (True # sched) (a, x # xs) (b, ys) = (a, x) # interleave sched (a, xs) (b, ys)"
| "interleave (False # sched) (a, xs) (b, y # ys) = (b, y) # interleave sched (a, xs) (b, ys)"

definition run_process :: "(string \<times> effect) list \<Rightarrow> process \<Rightarrow> process" where
  "run_process steps p = foldl (\<lambda>p (owner, e). perform owner e p) p steps"

section \<open>Concrete requests and environments\<close>

text \<open>Two request bodies of the simulation server; the second asks for a negative duration.\<close>

definition cfg_ok :: json where
  "cfg_ok = JObj [(''wind_speed'', JNum (Fin 10)), (''mesh_id'', JStr ''m1'')]"

definition cfg_negative :: json where
  "cfg_negative = JObj [(''wind_speed'', JNum (Fin 10)), (''mesh_id'', JStr ''m1''),
     (''simulation_time'', JNum (Fin (- 1)))]"

text \<open>
  An environment in which every call succeeds: the mesh \<^verbatim>\<open>m1\<close> exists, the solver runs
  for two rounds of the monitoring loop and exits with code 0, the log reports time 250,
  and the case directory holds the time directories \<^verbatim>\<open>0\<close> and \<^verbatim>\<open>100\<close>.
\<close>

definition env_ok :: sim_env where
  "env_ok =
     \<lparr>py_float = int_literal, mkdir_case = None, write_inputs = None,
      mesh_dir_exists = (\<lambda>m. m = ''m1''), copy_mesh = (\<lambda>m. None), clock_start = 1000,
      os_chdir = None, check_mesh = Inr 0, open_log = None, popen = None,
      poll = (\<lambda>k. if k < 2 then None else Some 0),
      log_lines = (\<lambda>k. Some [''Time = 250\<newline>'']),
      mkdir_result = None, write_sample_dict = None, run_post_process = None,
      forces_exists = True, copy_forces = None,
      iterdir = Inr [(''0'', True), (''constant'', True), (''system'', True), (''100'', True),
                     (''log.simpleFoam'', False)],
      mkdir_result_time = None, src_time_exists = True, field_exists = (\<lambda>f. True),
      copy_field = (\<lambda>f. None), clock_end = 1600\<rparr>"




text \<open>
  An environment of the mesh server in which every call succeeds: \<^verbatim>\<open>snappyHexMesh\<close> runs
  for two rounds and exits with code 0; the clock shows 12 and 24 seconds after the start.
\<close>

definition mesh_env_ok :: mesh_env where
  "mesh_env_ok =
     \<lparr>mkdir_mesh = None, geometry_exists = (\<lambda>g. g = ''box.stl''),
      convert_geometry = (\<lambda>g. None), write_dicts = None, generate_start = 1000,
      mesh_chdir = None, block_mesh = Inr 0, surface_features = Inr 0,
      open_snappy_log = None, popen_snappy = None,
      snappy_poll = (\<lambda>k. if k < 2 then None else Some 0),
      clock_at = (\<lambda>k. 1012 + 12 * of_nat k),
      mesh_check = None, parsed_stats = [(''cells'', 1000), (''points'', 1331), (''faces'', 3300)],
      polymesh_exists = True, copy_polymesh = None, generate_end = 1030\<rparr>"

text \<open>The status values that the specification lists.\<close>

definition status_values :: "string list" where
  "status_values = [''queued'', ''setting_up'', ''running'', ''post_processing'', ''completed'',
     ''failed'', ''cancelled'']"

text \<open>The status values of a mesh job.\<close>

definition mesh_status_values :: "string list" where
  "mesh_status_values = [''queued'', ''setting_up'', ''generating'', ''completed'', ''failed'']"

text \<open>The mesh job object as a client can observe it: before the first effect and after each one.\<close>

fun mesh_history :: "mesh_job \<Rightarrow> effect list \<Rightarrow> mesh_job list" where
  "mesh_history j [] = [j]"
| "mesh_history j (e # es) = j # mesh_history (apply_mesh_effect e j) es"






text \<open>The server process before any runner has changed its working directory.\<close>

definition server_start :: process where
  "server_start = \<lparr>cwd = [], launched = []\<rparr>"

text \<open>
  A schedule for two runner threads: the first runs up to and including its
  \<^verbatim>\<open>os.chdir\<close> (its seventh effect in \<open>env_ok\<close>), then the second does the same, then the
  first runs to its end, and the second after it.
\<close>

definition chdir_race :: "bool list" where
  "chdir_race = [True, True, True, True, True, True, True,
                 False, False, False, False, False, False, False]"

text \<open>The effects of a runner that follow its first write of a given status.\<close>

fun after_status :: "string \<Rightarrow> effect list \<Rightarrow> effect list" where
  "after_status s [] = []"
| "after_status s (e # es) = (if e = Write (Status s) then es else after_status s es)"

text \<open>A simulation job that has completed.\<close>

definition job_done :: job where
  "job_done =
     \<lparr>jid = ''s1'', config = cfg_ok, status = ''completed'', progress = 100, error = None,
      start_time = Some 1000, end_time = Some 1600\<rparr>"





section \<open>Properties of the progress estimator\<close>

lemma time_steps_no_marker:
  "list_all (\<lambda>l. \<not> startswith l ''Time ='') ls \<Longrightarrow> time_steps F ls = []"
  by (induction ls) auto

lemma py_min_not_above: "\<not> pf_less b (py_min a b)"
  by (cases a; cases b) (auto simp: py_min_def)

lemma py_min_unit: "0 \<le> q \<Longrightarrow> in_unit_interval (py_min (Fin q) (Fin 1))"
  by (auto simp: py_min_def)

lemmas estimator_defs = parse_log_progress_def startswith_def strip_def isspace_def
  int_literal_def digit_val_def py_min_def

text \<open>
  C8, as amended. \<^verbatim>\<open>_parse_log_progress\<close> returns a float for every log and every
  configuration (each exception of its body ends in one of the two \<^verbatim>\<open>except\<close> clauses).
  It returns 0.0 when the log cannot be read, when no line starts with \<^verbatim>\<open>Time =\<close>, when
  no such line carries a value that \<^verbatim>\<open>float\<close> accepts, and when the division by the
  configured \<^verbatim>\<open>simulation_time\<close> raises (a zero or a value that is not a number).
  Otherwise it returns the last parsed time value divided by \<^verbatim>\<open>simulation_time\<close>
  (1000 by default), capped at 1.0 from above only: the result is never greater than 1.0,
  and it lies between 0 and 1 whenever that ratio is a non-negative number.
\<close>

theorem parse_log_progress_capped:
  "parse_log_progress F cfg None = Fin 0 \<and>
   (list_all (\<lambda>l. \<not> startswith l ''Time ='') ls0 \<longrightarrow>
      parse_log_progress F cfg (Some ls0) = Fin 0) \<and>
   (time_steps F ls0 = [] \<longrightarrow> parse_log_progress F cfg (Some ls0) = Fin 0) \<and>
   (time_steps F ls \<noteq> [] \<longrightarrow>
      config_get cfg ''simulation_time'' (JNum (Fin 1000)) = Inr target \<longrightarrow>
      (case py_truediv (last (time_steps F ls)) target of
         Inl e \<Rightarrow> parse_log_progress F cfg (Some ls) = Fin 0
       | Inr ratio \<Rightarrow>
           parse_log_progress F cfg (Some ls) = py_min ratio (Fin 1) \<and>
           (case ratio of
              Fin q \<Rightarrow> 0 \<le> q \<longrightarrow> in_unit_interval (parse_log_progress F cfg (Some ls))
            | _ \<Rightarrow> True))) \<and>
   \<not> pf_less (Fin 1) (parse_log_progress F cfg r)"
proof -
  have unreadable: "parse_log_progress F cfg None = Fin 0"
    by (simp add: parse_log_progress_def)
  have no_value: "time_steps F ls0 = [] \<Longrightarrow> parse_log_progress F cfg (Some ls0) = Fin 0"
    by (simp add: parse_log_progress_def)
  have capped: "\<not> pf_less (Fin 1) (parse_log_progress F cfg r)"
    by (auto simp: parse_log_progress_def Let_def py_min_not_above
        split: option.splits sum.splits)
  have ratio: "time_steps F ls \<noteq> [] \<Longrightarrow>
      config_get cfg ''simulation_time'' (JNum (Fin 1000)) = Inr target \<Longrightarrow>
      (case py_truediv (last (time_steps F ls)) target of
         Inl e \<Rightarrow> parse_log_progress F cfg (Some ls) = Fin 0
       | Inr ratio \<Rightarrow>
           parse_log_progress F cfg (Some ls) = py_min ratio (Fin 1) \<and>
           (case ratio of
              Fin q \<Rightarrow> 0 \<le> q \<longrightarrow> in_unit_interval (parse_log_progress F cfg (Some ls))
            | _ \<Rightarrow> True))"
    by (auto simp: parse_log_progress_def Let_def py_min_unit split: sum.splits pyfloat.splits)
  from unreadable no_value capped ratio time_steps_no_marker show ?thesis
    by blast
qed

text \<open>
  The theorem at a log without a marker and at a log whose last marker reports time 250
  of the default 1000.
\<close>

theorem parse_log_progress_capped_witness:
  "list_all (\<lambda>l. \<not> startswith l ''Time ='') [''Starting time loop\<newline>''] \<and>
   parse_log_progress int_literal cfg_ok (Some [''Starting time loop\<newline>'']) = Fin 0 \<and>
   time_steps int_literal [''Courant Number mean: 0.1\<newline>'', ''Time = 250\<newline>''] = [Fin 250] \<and>
   config_get cfg_ok ''simulation_time'' (JNum (Fin 1000)) = Inr (JNum (Fin 1000)) \<and>
   py_truediv (Fin 250) (JNum (Fin 1000)) = Inr (Fin (1 / 4)) \<and>
   parse_log_progress int_literal cfg_ok
     (Some [''Courant Number mean: 0.1\<newline>'', ''Time = 250\<newline>'']) = Fin (1 / 4) \<and>
   in_unit_interval (parse_log_progress int_literal cfg_ok
     (Some [''Courant Number mean: 0.1\<newline>'', ''Time = 250\<newline>'']))"
  using parse_log_progress_capped [of int_literal cfg_ok "[''Starting time loop\<newline>'']"
      "[''Courant Number mean: 0.1\<newline>'', ''Time = 250\<newline>'']" "JNum (Fin 1000)" None]
  by (simp add: cfg_ok_def startswith_def strip_def isspace_def int_literal_def digit_val_def
      py_min_def)

text \<open>
  C8 as stated fails: with \<^verbatim>\<open>simulation_time\<close> set to -1 and a log whose last marker is
  \<^verbatim>\<open>Time = 101\<close> the estimator returns -101, which is not in the interval from 0 to 1.
\<close>

theorem parse_log_progress_negative:
  "\<not> in_unit_interval
       (parse_log_progress int_literal cfg_negative (Some [''Time = 101\<newline>'']))"
  by (simp add: estimator_defs cfg_negative_def)

section \<open>Properties of the create handlers\<close>

text \<open>
  C10. When \<^verbatim>\<open>request.json\<close> is \<^verbatim>\<open>None\<close> (a body that is JSON \<^verbatim>\<open>null\<close>, or no JSON body
  where Flask yields \<^verbatim>\<open>None\<close>), the membership test raises \<^verbatim>\<open>TypeError\<close>, and when
  evaluating \<^verbatim>\<open>request.json\<close> itself raises, the handler's \<^verbatim>\<open>except\<close> clause answers
  alike: both create handlers return code 500 with the message of the exception, not
  400, and the registry is the one they were given.
\<close>

theorem create_without_body:
  "start_simulation reg sim_id (Inr JNull) =
     (Response 500
        (error_body (''argument of type '' @ quoted ''NoneType'' @ '' is not iterable'')), reg) \<and>
   start_simulation reg sim_id (Inl e) = (Response 500 (error_body (str_exn e)), reg) \<and>
   generate_mesh_handler file_exists mreg job_id (Inr JNull) =
     (Response 500
        (error_body (''argument of type '' @ quoted ''NoneType'' @ '' is not iterable'')), mreg) \<and>
   generate_mesh_handler file_exists mreg job_id (Inl e) =
     (Response 500 (error_body (str_exn e)), mreg)"
  by (simp add: start_simulation_def generate_mesh_handler_def)



section \<open>Properties of the runners\<close>

lemma fst_bind: "fst (bind m f) = fst m @ (case snd m of Ret x \<Rightarrow> fst (f x) | _ \<Rightarrow> [])"
  by (auto simp: bind_def split: prod.splits outcome.splits)

lemma snd_bind:
  "snd (bind m f) = (case snd m of Ret x \<Rightarrow> snd (f x) | Raise e \<Rightarrow> Raise e | Pending \<Rightarrow> Pending)"
  by (auto simp: bind_def split: prod.splits outcome.splits)

lemma fst_catch: "fst (catch m h) = fst m @ (case snd m of Raise e \<Rightarrow> fst (h e) | _ \<Rightarrow> [])"
  by (auto simp: catch_def split: prod.splits outcome.splits)

lemma snd_catch: "snd (catch m h) = (case snd m of Raise e \<Rightarrow> snd (h e) | r \<Rightarrow> r)"
  by (auto simp: catch_def split: prod.splits outcome.splits)

lemmas run_simps = fst_bind snd_bind fst_catch snd_catch thn_def ret_def emit_def ext_def
  ext_val_def fail_with_def copy_to_def

lemmas sim_defs = run_simulation_thread_def setup_case_def run_simulation_def post_process_def
  sample_fields_def extract_forces_def copy_field_file_def call_check_mesh_def
  scaled_progress_def get_latest_time_def sort_reverse_def tuple_less_def trunc_def

lemmas mesh_defs = run_mesh_generation_thread_def mesh_setup_case_def generate_mesh_def
  convert_geometry_to_stl_def copy_mesh_out_def run_checked_def elapsed_progress_def trunc_def
  suffix_of_def last_component_def lower_def lower_chr_def

lemma statuses_append [simp]: "statuses (xs @ ys) = statuses xs @ statuses ys"
  by (induction xs rule: statuses.induct) auto

lemma progresses_append [simp]: "progresses (xs @ ys) = progresses xs @ progresses ys"
  by (induction xs rule: progresses.induct) auto

lemma monitor_statuses [simp]: "statuses (fst (monitor env cfg fuel k)) = []"
  by (induction fuel arbitrary: k) (auto simp: run_simps split: option.splits sum.splits)

lemma mesh_monitor_statuses [simp]: "statuses (fst (mesh_monitor env fuel k)) = []"
  by (induction fuel arbitrary: k) (auto simp: run_simps split: option.splits)

lemma post_process_statuses [simp]: "statuses (fst (post_process env sid)) = []"
  by (auto simp: post_process_def sample_fields_def extract_forces_def copy_field_file_def
      run_simps split: option.splits sum.splits outcome.splits)

lemma setup_case_statuses:
  "set (statuses (fst (setup_case env sid cfg))) \<subseteq> set status_values"
  by (auto simp: setup_case_def run_simps status_values_def
      split: option.splits sum.splits outcome.splits)

lemma run_simulation_statuses:
  "set (statuses (fst (run_simulation env sid cfg fuel))) \<subseteq> set status_values"
  by (auto simp: run_simulation_def call_check_mesh_def run_simps status_values_def
      split: option.splits sum.splits outcome.splits)

lemma thread_statuses:
  "set (statuses (fst (run_simulation_thread env sid cfg fuel))) \<subseteq> set status_values"
  using setup_case_statuses [of env sid cfg] run_simulation_statuses [of env sid cfg fuel]
  by (auto simp: run_simulation_thread_def fst_bind ret_def split: outcome.splits)

lemma run_simulation_success:
  "snd (run_simulation env sid cfg fuel) = Ret True \<Longrightarrow>
   statuses (fst (run_simulation env sid cfg fuel)) =
     [''running'', ''post_processing'', ''completed'']"
  by (auto simp: run_simulation_def call_check_mesh_def run_simps
      split: option.splits sum.splits outcome.splits if_splits)

lemma setup_case_result:
  "snd (setup_case env sid cfg) = Ret True \<and>
     statuses (fst (setup_case env sid cfg)) = [''setting_up''] \<or>
   snd (setup_case env sid cfg) = Ret False"
  by (auto simp: setup_case_def run_simps split: option.splits sum.splits outcome.splits)

lemma thread_success:
  assumes "snd (run_simulation_thread env sid cfg fuel) = Ret True"
  shows "statuses (fst (run_simulation_thread env sid cfg fuel)) =
     [''setting_up'', ''running'', ''post_processing'', ''completed'']"
proof -
  from setup_case_result [of env sid cfg] assms
  have ok: "snd (setup_case env sid cfg) = Ret True"
    and s: "statuses (fst (setup_case env sid cfg)) = [''setting_up'']"
    by (auto simp: run_simulation_thread_def snd_bind ret_def)
  from assms ok have "snd (run_simulation env sid cfg fuel) = Ret True"
    by (simp add: run_simulation_thread_def snd_bind)
  from run_simulation_success [OF this] ok s show ?thesis
    by (simp add: run_simulation_thread_def fst_bind)
qed

lemma mesh_setup_case_result:
  "snd (mesh_setup_case env job_id geometry cfg) = Ret True \<and>
     statuses (fst (mesh_setup_case env job_id geometry cfg)) = [''setting_up''] \<or>
   snd (mesh_setup_case env job_id geometry cfg) = Ret False \<and>
     statuses (fst (mesh_setup_case env job_id geometry cfg)) = [''setting_up'', ''failed'']"
  by (auto simp: mesh_setup_case_def convert_geometry_to_stl_def run_simps
      split: option.splits sum.splits outcome.splits)

lemma generate_mesh_statuses:
  "snd (generate_mesh env job_id fuel) = Ret True \<and>
     statuses (fst (generate_mesh env job_id fuel)) = [''generating'', ''completed''] \<or>
   snd (generate_mesh env job_id fuel) \<noteq> Ret True \<and>
     statuses (fst (generate_mesh env job_id fuel)) \<in> {[''generating''], [''generating'', ''failed'']}"
  by (auto simp: generate_mesh_def copy_mesh_out_def run_checked_def run_simps
      split: option.splits sum.splits outcome.splits)

lemma mesh_thread_statuses:
  "set (statuses (fst (run_mesh_generation_thread env job_id geometry cfg fuel)))
     \<subseteq> set mesh_status_values"
  using mesh_setup_case_result [of env job_id geometry cfg] generate_mesh_statuses [of env job_id fuel]
  by (auto simp: run_mesh_generation_thread_def fst_bind ret_def mesh_status_values_def
      split: outcome.splits)

lemma mesh_thread_success:
  assumes "snd (run_mesh_generation_thread env job_id geometry cfg fuel) = Ret True"
  shows "statuses (fst (run_mesh_generation_thread env job_id geometry cfg fuel)) =
     [''setting_up'', ''generating'', ''completed'']"
  using mesh_setup_case_result [of env job_id geometry cfg]
    generate_mesh_statuses [of env job_id fuel] assms
  by (auto simp: run_mesh_generation_thread_def fst_bind snd_bind ret_def split: outcome.splits)

lemma history_statuses:
  "status j \<in> S \<Longrightarrow> ''cancelled'' \<in> S \<Longrightarrow> set (statuses (runner_part evs)) \<subseteq> S \<Longrightarrow>
   list_all (\<lambda>j. status j \<in> S) (history j evs)"
proof (induction evs arbitrary: j)
  case Nil
  then show ?case by simp
next
  case (Cons ev evs)
  show ?case
  proof (cases ev)
    case (Runner e)
    with Cons show ?thesis
      by (cases e; cases "case e of Write u \<Rightarrow> u | _ \<Rightarrow> Status []") auto
  next
    case CancelRequest
    with Cons show ?thesis by simp
  next
    case StatusRequest
    with Cons show ?thesis by simp
  qed
qed

lemma mesh_history_statuses:
  "status j \<in> S \<Longrightarrow> set (statuses es) \<subseteq> S \<Longrightarrow> list_all (\<lambda>j. status j \<in> S) (mesh_history j es)"
proof (induction es arbitrary: j)
  case Nil
  then show ?case by simp
next
  case (Cons e es)
  then show ?case
    by (cases e; cases "case e of Write u \<Rightarrow> u | _ \<Rightarrow> Status []") auto
qed

text \<open>
  C1, as amended. A simulation job only ever has a status among queued, setting_up,
  running, post_processing, completed, failed and cancelled, whatever cancel and status
  requests arrive between the writes of its runner, and a run that returns success has
  written setting_up, running, post_processing, completed in that order after the
  initial queued. A mesh job only ever has a status among queued, setting_up,
  generating, completed and failed, and a successful run goes through queued,
  setting_up, generating, completed: it never is running or post_processing.
\<close>

theorem job_status_lifecycle:
  "(runner_part evs = fst (run_simulation_thread env sid cfg fuel) \<longrightarrow>
      list_all (\<lambda>j. status j \<in> set status_values) (history (CFDSimulation sid cfg) evs)) \<and>
   (snd (run_simulation_thread env sid cfg fuel) = Ret True \<longrightarrow>
      status (CFDSimulation sid cfg) # statuses (fst (run_simulation_thread env sid cfg fuel)) =
        [''queued'', ''setting_up'', ''running'', ''post_processing'', ''completed'']) \<and>
   list_all (\<lambda>j. status j \<in> set mesh_status_values)
     (mesh_history (MeshGenerationJob job_id geometry mcfg)
        (fst (run_mesh_generation_thread menv job_id geometry mcfg fuel'))) \<and>
   (snd (run_mesh_generation_thread menv job_id geometry mcfg fuel') = Ret True \<longrightarrow>
      status (MeshGenerationJob job_id geometry mcfg) #
        statuses (fst (run_mesh_generation_thread menv job_id geometry mcfg fuel')) =
        [''queued'', ''setting_up'', ''generating'', ''completed''])"
proof -
  have sim: "runner_part evs = fst (run_simulation_thread env sid cfg fuel) \<Longrightarrow>
      list_all (\<lambda>j. status j \<in> set status_values) (history (CFDSimulation sid cfg) evs)"
    using thread_statuses [of env sid cfg fuel]
    by (intro history_statuses) (simp_all add: CFDSimulation_def status_values_def)
  have mesh: "list_all (\<lambda>j. status j \<in> set mesh_status_values)
     (mesh_history (MeshGenerationJob job_id geometry mcfg)
        (fst (run_mesh_generation_thread menv job_id geometry mcfg fuel')))"
    using mesh_thread_statuses [of menv job_id geometry mcfg fuel']
    by (intro mesh_history_statuses) (simp_all add: MeshGenerationJob_def mesh_status_values_def)
  from sim mesh thread_success [of env sid cfg fuel]
    mesh_thread_success [of menv job_id geometry mcfg fuel']
  show ?thesis
    by (simp add: CFDSimulation_def MeshGenerationJob_def)
qed

lemmas concrete_defs = env_ok_def cfg_ok_def mesh_env_ok_def estimator_defs

text \<open>
  The theorem at a successful simulation run with a cancel request just before the runner
  writes completed, and at a successful mesh run.
\<close>

theorem job_status_lifecycle_witness:
  "snd (run_simulation_thread env_ok ''s1'' cfg_ok 5) = Ret True \<and>
   statuses (fst (run_simulation_thread env_ok ''s1'' cfg_ok 5)) =
     [''setting_up'', ''running'', ''post_processing'', ''completed''] \<and>
   list_all (\<lambda>j. status j \<in> set status_values)
     (history (CFDSimulation ''s1'' cfg_ok)
        (map Runner (butlast (butlast (fst (run_simulation_thread env_ok ''s1'' cfg_ok 5)))) @
         [CancelRequest] @
         map Runner [Write (Status ''completed''), Write (EndTime 1600)])) \<and>
   snd (run_mesh_generation_thread mesh_env_ok ''j1'' ''box.stl'' (JObj []) 5) = Ret True \<and>
   statuses (fst (run_mesh_generation_thread mesh_env_ok ''j1'' ''box.stl'' (JObj []) 5)) =
     [''setting_up'', ''generating'', ''completed'']"
proof -
  have run: "fst (run_simulation_thread env_ok ''s1'' cfg_ok 5) =
      butlast (butlast (fst (run_simulation_thread env_ok ''s1'' cfg_ok 5))) @
        [Write (Status ''completed''), Write (EndTime 1600)]"
    and ok: "snd (run_simulation_thread env_ok ''s1'' cfg_ok 5) = Ret True"
    by (simp_all add: sim_defs run_simps concrete_defs numeral_nat)
  have mok: "snd (run_mesh_generation_thread mesh_env_ok ''j1'' ''box.stl'' (JObj []) 5) = Ret True"
    by (simp add: mesh_defs run_simps concrete_defs numeral_nat)
  have part: "runner_part
      (map Runner (butlast (butlast (fst (run_simulation_thread env_ok ''s1'' cfg_ok 5)))) @
       [CancelRequest] @ map Runner [Write (Status ''completed''), Write (EndTime 1600)]) =
     fst (run_simulation_thread env_ok ''s1'' cfg_ok 5)"
    by (simp add: sim_defs run_simps concrete_defs numeral_nat)
  from job_status_lifecycle [of _ env_ok "''s1''" cfg_ok 5 "''j1''" "''box.stl''" "JObj []"
      mesh_env_ok 5] part ok mok
  show ?thesis by simp
qed

text \<open>
  C1 as stated fails for mesh jobs: the successful run of a mesh job writes the status
  generating, which is not among the listed values, and it goes from setting_up to
  generating to completed without running or post_processing.
\<close>

theorem mesh_job_status_generating:
  "snd (run_mesh_generation_thread mesh_env_ok ''j1'' ''box.stl'' (JObj []) 5) = Ret True \<and>
   statuses (fst (run_mesh_generation_thread mesh_env_ok ''j1'' ''box.stl'' (JObj []) 5)) =
     [''setting_up'', ''generating'', ''completed''] \<and>
   ''generating'' \<notin> set status_values"
  by (simp add: mesh_defs run_simps concrete_defs status_values_def numeral_nat)

section \<open>The solver phase\<close>


lemma trunc_zero: "- 1 < r \<Longrightarrow> r < 1 \<Longrightarrow> trunc r = 0"
  by (auto simp: trunc_def floor_eq_iff ceiling_eq_iff)









section \<open>The finalization phase\<close>









section \<open>The setup phase\<close>


lemma convert_geometry_outcomes:
  "(\<exists>a b. convert_geometry_to_stl env job_id geometry = ([Copy a b], Ret ())) \<or>
   (\<exists>e. convert_geometry_to_stl env job_id geometry = ([], Raise e))"
proof (cases "lower (suffix_of geometry) \<in> set [''.stl'', ''.obj'', ''.ply'', ''.glb'', ''.gltf'']")
  case True
  then have "convert_geometry_to_stl env job_id geometry =
      (if geometry_exists env geometry then
         copy_to (convert_geometry env geometry) (GEOMETRIES_DIR @ [geometry])
           (mesh_case_dir job_id @ [''constant'', ''triSurface'', ''building.stl''])
       else ([], Raise (ValueError (''string is not a file: /geometries/'' @ geometry))))"
    unfolding convert_geometry_to_stl_def by (simp only: if_True)
  then show ?thesis
    by (auto simp: copy_to_def thn_def bind_def ext_def emit_def split: option.splits)
next
  case False
  then have "convert_geometry_to_stl env job_id geometry =
      ([], Raise (ValueError (''Unsupported geometry format: '' @ suffix_of geometry)))"
    unfolding convert_geometry_to_stl_def by (simp only: if_False)
  then show ?thesis
    by blast
qed










section \<open>Two runners in one process\<close>

text \<open>
  C9 does not hold of the code. Two simulation jobs \<^verbatim>\<open>a\<close> and \<^verbatim>\<open>b\<close> run in threads of
  the same server process. When the \<^verbatim>\<open>os.chdir\<close> of \<^verbatim>\<open>b\<close> comes between the
  \<^verbatim>\<open>os.chdir\<close> of \<^verbatim>\<open>a\<close> and the launches of \<^verbatim>\<open>a\<close>, which pass no \<^verbatim>\<open>cwd=\<close>, the
  \<^verbatim>\<open>checkMesh\<close> and the solver of \<^verbatim>\<open>a\<close> run in the case directory of \<^verbatim>\<open>b\<close>. Only
  \<^verbatim>\<open>postProcess\<close>, which \<^verbatim>\<open>_sample_fields\<close> launches with \<^verbatim>\<open>cwd=self.case_dir\<close>, runs
  in the directory of its own job.
\<close>

theorem solver_runs_in_other_case_dir:
  "launched (run_process
     (interleave chdir_race
        (''a'', fst (run_simulation_thread env_ok ''a'' cfg_ok 5))
        (''b'', fst (run_simulation_thread env_ok ''b'' cfg_ok 5)))
     server_start) =
   [(''a'', ''checkMesh'', case_dir ''b''),
    (''a'', ''simpleFoam'', case_dir ''b''),
    (''a'', ''postProcess'', case_dir ''a''),
    (''b'', ''checkMesh'', case_dir ''b''),
    (''b'', ''simpleFoam'', case_dir ''b''),
    (''b'', ''postProcess'', case_dir ''b'')] \<and>
   case_dir ''a'' \<noteq> case_dir ''b''"
proof -
  have a: "fst (run_simulation_thread env_ok ''a'' cfg_ok 5) =
      [Write (Status ''setting_up''),
       Copy (MESHES_DIR @ [''m1'', ''constant'', ''polyMesh''])
         (case_dir ''a'' @ [''constant'', ''polyMesh'']),
       Write (Progress 20), Write (Status ''running''), Write (StartTime 1000),
       Write (Progress 40), Chdir (case_dir ''a''), Write (Progress 45),
       Spawn ''checkMesh'' None, Write (Progress 50), Spawn ''simpleFoam'' None,
       Write (Progress 50), Write (Progress 50), Write (Progress 90),
       Write (Status ''post_processing''), Spawn ''postProcess'' (Some (case_dir ''a'')),
       Copy (case_dir ''a'' @ [''postProcessing'', ''forceCoeffs'', ''0'', ''forceCoeffs.dat''])
         (result_dir ''a'' @ [''forceCoeffs.dat'']),
       Copy (case_dir ''a'' @ [''100'', ''U'']) (result_dir ''a'' @ [''100'', ''U'']),
       Copy (case_dir ''a'' @ [''100'', ''p'']) (result_dir ''a'' @ [''100'', ''p'']),
       Copy (case_dir ''a'' @ [''100'', ''k'']) (result_dir ''a'' @ [''100'', ''k'']),
       Copy (case_dir ''a'' @ [''100'', ''epsilon'']) (result_dir ''a'' @ [''100'', ''epsilon'']),
       Write (Progress 100), Write (Status ''completed''), Write (EndTime 1600)]" (is "_ = ?A")
    by (simp add: run_simulation_thread_def setup_case_def run_simulation_def post_process_def
        sample_fields_def extract_forces_def copy_field_file_def call_check_mesh_def
        scaled_progress_def get_latest_time_def sort_reverse_def tuple_less_def
        run_simps concrete_defs trunc_zero numeral_nat)
  have b: "fst (run_simulation_thread env_ok ''b'' cfg_ok 5) =
      [Write (Status ''setting_up''),
       Copy (MESHES_DIR @ [''m1'', ''constant'', ''polyMesh''])
         (case_dir ''b'' @ [''constant'', ''polyMesh'']),
       Write (Progress 20), Write (Status ''running''), Write (StartTime 1000),
       Write (Progress 40), Chdir (case_dir ''b''), Write (Progress 45),
       Spawn ''checkMesh'' None, Write (Progress 50), Spawn ''simpleFoam'' None,
       Write (Progress 50), Write (Progress 50), Write (Progress 90),
       Write (Status ''post_processing''), Spawn ''postProcess'' (Some (case_dir ''b'')),
       Copy (case_dir ''b'' @ [''postProcessing'', ''forceCoeffs'', ''0'', ''forceCoeffs.dat''])
         (result_dir ''b'' @ [''forceCoeffs.dat'']),
       Copy (case_dir ''b'' @ [''100'', ''U'']) (result_dir ''b'' @ [''100'', ''U'']),
       Copy (case_dir ''b'' @ [''100'', ''p'']) (result_dir ''b'' @ [''100'', ''p'']),
       Copy (case_dir ''b'' @ [''100'', ''k'']) (result_dir ''b'' @ [''100'', ''k'']),
       Copy (case_dir ''b'' @ [''100'', ''epsilon'']) (result_dir ''b'' @ [''100'', ''epsilon'']),
       Write (Progress 100), Write (Status ''completed''), Write (EndTime 1600)]" (is "_ = ?B")
    by (simp add: run_simulation_thread_def setup_case_def run_simulation_def post_process_def
        sample_fields_def extract_forces_def copy_field_file_def call_check_mesh_def
        scaled_progress_def get_latest_time_def sort_reverse_def tuple_less_def
        run_simps concrete_defs trunc_zero numeral_nat)
  show ?thesis
    unfolding a b
    by (simp add: chdir_race_def run_process_def server_start_def case_dir_def)
qed

section \<open>Writes after a terminal status\<close>

lemma after_status_append:
  "after_status s (xs @ ys) =
     (if s \<in> set (statuses xs) then after_status s xs @ ys else after_status s ys)"
  by (induction xs rule: statuses.induct) auto

lemma after_status_not_written: "s \<notin> set (statuses es) \<Longrightarrow> after_status s es = []"
  by (induction es rule: statuses.induct) auto

lemma setup_case_after_failed:
  "after_status ''failed'' (fst (setup_case env sid cfg)) = [] \<and>
   (''failed'' \<in> set (statuses (fst (setup_case env sid cfg))) \<longrightarrow>
      snd (setup_case env sid cfg) = Ret False) \<and>
   ''completed'' \<notin> set (statuses (fst (setup_case env sid cfg)))"
  by (auto simp: setup_case_def run_simps split: option.splits sum.splits outcome.splits)

lemma after_status_quiet: "statuses xs = [] \<Longrightarrow> after_status s (xs @ ys) = after_status s ys"
  by (induction xs rule: statuses.induct) auto

lemma after_status_none: "statuses xs = [] \<Longrightarrow> after_status s xs = []"
  by (induction xs rule: statuses.induct) auto

lemma mesh_monitor_quiet: "mesh_monitor env fuel k = (es, r) \<Longrightarrow> statuses es = []"
  using mesh_monitor_statuses [of env fuel k] by simp

lemma monitor_quiet: "monitor env cfg fuel k = (es, r) \<Longrightarrow> statuses es = []"
  using monitor_statuses [of env cfg fuel k] by simp

lemma post_process_quiet: "post_process env sid = (es, r) \<Longrightarrow> statuses es = []"
  using post_process_statuses [of env sid] by simp

lemmas pair_simps = bind_def thn_def emit_def ext_def ext_val_def ret_def catch_def fail_with_def
  copy_to_def

lemma generate_mesh_after_failed:
  "after_status ''failed'' (fst (generate_mesh env job_id fuel)) = []"
  by (auto simp: generate_mesh_def copy_mesh_out_def run_checked_def pair_simps after_status_quiet
      after_status_none
      dest!: mesh_monitor_quiet
      split: option.splits sum.splits prod.splits outcome.splits if_splits)

lemma generate_mesh_after_completed:
  "after_status ''completed'' (fst (generate_mesh env job_id fuel)) \<in>
     {[], [Write (EndTime (generate_end env))]}"
  by (auto simp: generate_mesh_def copy_mesh_out_def run_checked_def pair_simps after_status_quiet
      after_status_none
      dest!: mesh_monitor_quiet
      split: option.splits sum.splits prod.splits outcome.splits if_splits)

lemma run_simulation_after_failed:
  "after_status ''failed'' (fst (run_simulation env sid cfg fuel)) = []"
  by (auto simp: run_simulation_def call_check_mesh_def pair_simps after_status_quiet
      after_status_none
      dest!: monitor_quiet post_process_quiet
      split: option.splits sum.splits prod.splits outcome.splits if_splits)

lemma run_simulation_after_completed:
  "after_status ''completed'' (fst (run_simulation env sid cfg fuel)) \<in>
     {[], [Write (EndTime (clock_end env))]}"
  by (auto simp: run_simulation_def call_check_mesh_def pair_simps after_status_quiet
      after_status_none
      dest!: monitor_quiet post_process_quiet
      split: option.splits sum.splits prod.splits outcome.splits if_splits)

lemma thread_after_terminal:
  "after_status ''failed'' (fst (run_simulation_thread env sid cfg fuel)) = [] \<and>
   after_status ''completed'' (fst (run_simulation_thread env sid cfg fuel)) \<in>
     {[], [Write (EndTime (clock_end env))]}"
proof (cases "snd (setup_case env sid cfg) = Ret True")
  case True
  with setup_case_after_failed [of env sid cfg]
  have "''failed'' \<notin> set (statuses (fst (setup_case env sid cfg)))"
    "''completed'' \<notin> set (statuses (fst (setup_case env sid cfg)))"
    by auto
  with True run_simulation_after_failed [of env sid cfg fuel]
    run_simulation_after_completed [of env sid cfg fuel]
  show ?thesis
    by (simp add: run_simulation_thread_def fst_bind after_status_append)
next
  case False
  then have "fst (run_simulation_thread env sid cfg fuel) = fst (setup_case env sid cfg)"
    by (simp add: run_simulation_thread_def fst_bind ret_def split: outcome.splits)
  with setup_case_after_failed [of env sid cfg] show ?thesis
    by (simp add: after_status_not_written)
qed

lemma mesh_setup_case_after_failed:
  "after_status ''failed'' (fst (mesh_setup_case env job_id geometry cfg)) = [] \<and>
   ''completed'' \<notin> set (statuses (fst (mesh_setup_case env job_id geometry cfg)))"
  using convert_geometry_outcomes [of env job_id geometry]
  by (auto simp: mesh_setup_case_def run_simps split: option.splits sum.splits)

lemma mesh_thread_after_terminal:
  "after_status ''failed'' (fst (run_mesh_generation_thread env job_id geometry cfg fuel)) = [] \<and>
   after_status ''completed'' (fst (run_mesh_generation_thread env job_id geometry cfg fuel)) \<in>
     {[], [Write (EndTime (generate_end env))]}"
proof (cases "snd (mesh_setup_case env job_id geometry cfg) = Ret True")
  case True
  with mesh_setup_case_result [of env job_id geometry cfg]
  have "''failed'' \<notin> set (statuses (fst (mesh_setup_case env job_id geometry cfg)))"
    "''completed'' \<notin> set (statuses (fst (mesh_setup_case env job_id geometry cfg)))"
    by auto
  with True generate_mesh_after_failed [of env job_id fuel]
    generate_mesh_after_completed [of env job_id fuel]
  show ?thesis
    by (simp add: run_mesh_generation_thread_def fst_bind after_status_append)
next
  case False
  then have "fst (run_mesh_generation_thread env job_id geometry cfg fuel) =
      fst (mesh_setup_case env job_id geometry cfg)"
    by (simp add: run_mesh_generation_thread_def fst_bind ret_def split: outcome.splits)
  with mesh_setup_case_after_failed [of env job_id geometry cfg] show ?thesis
    by (simp add: after_status_not_written)
qed

text \<open>
  C2, as amended. A status request leaves the registry as it is. A cancel request sets
  the status of the stored job to cancelled whatever it was before, completed and failed
  included, and leaves its error, end time and progress (and every other job) as they
  are. A runner that has written failed writes nothing after it; a runner that has
  written completed writes nothing after it but the end time. (A runner that is
  still at work when a cancel request arrives goes on with its writes.)
\<close>

theorem writes_after_terminal_status:
  "snd (get_simulation_status reg sid now) = reg \<and>
   (reg sid = Some j \<longrightarrow>
      (\<exists>j'. snd (cancel_simulation reg sid) sid = Some j' \<and> status j' = ''cancelled'' \<and>
            error j' = error j \<and> end_time j' = end_time j \<and> progress j' = progress j) \<and>
      (\<forall>other. other \<noteq> sid \<longrightarrow> snd (cancel_simulation reg sid) other = reg other)) \<and>
   after_status ''failed'' (fst (run_simulation_thread env sid cfg fuel)) = [] \<and>
   after_status ''completed'' (fst (run_simulation_thread env sid cfg fuel)) \<in>
     {[], [Write (EndTime (clock_end env))]} \<and>
   after_status ''failed'' (fst (run_mesh_generation_thread menv job_id geometry mcfg fuel')) = [] \<and>
   after_status ''completed''
      (fst (run_mesh_generation_thread menv job_id geometry mcfg fuel')) \<in>
     {[], [Write (EndTime (generate_end menv))]}"
proof -
  have polling: "snd (get_simulation_status reg sid now) = reg"
    by (simp add: get_simulation_status_def split: option.splits)
  have cancelling: "reg sid = Some j \<Longrightarrow>
      (\<exists>j'. snd (cancel_simulation reg sid) sid = Some j' \<and> status j' = ''cancelled'' \<and>
            error j' = error j \<and> end_time j' = end_time j \<and> progress j' = progress j) \<and>
      (\<forall>other. other \<noteq> sid \<longrightarrow> snd (cancel_simulation reg sid) other = reg other)"
    by (simp add: cancel_simulation_def)
  from polling cancelling thread_after_terminal [of env sid cfg fuel]
    mesh_thread_after_terminal [of menv job_id geometry mcfg fuel']
  show ?thesis
    by blast
qed

text \<open>
  The theorem at a registry that holds one completed job, and at a successful run: the
  end time is the only write after completed.
\<close>

theorem writes_after_terminal_status_witness:
  "snd (get_simulation_status [''s1'' \<mapsto> job_done] ''s1'' 2000) = [''s1'' \<mapsto> job_done] \<and>
   map_option status (snd (cancel_simulation [''s1'' \<mapsto> job_done] ''s1'') ''s1'') =
     Some ''cancelled'' \<and>
   map_option progress (snd (cancel_simulation [''s1'' \<mapsto> job_done] ''s1'') ''s1'') = Some 100 \<and>
   map_option end_time (snd (cancel_simulation [''s1'' \<mapsto> job_done] ''s1'') ''s1'') =
     Some (Some 1600) \<and>
   map_option error (snd (cancel_simulation [''s1'' \<mapsto> job_done] ''s1'') ''s1'') = Some None \<and>
   after_status ''completed'' (fst (run_simulation_thread env_ok ''s1'' cfg_ok 5)) =
     [Write (EndTime 1600)]"
proof -
  note t = writes_after_terminal_status
    [of "[''s1'' \<mapsto> job_done]" "''s1''" 2000 job_done env_ok cfg_ok 5]
  have stored: "[''s1'' \<mapsto> job_done] ''s1'' = Some job_done"
    by simp
  with t obtain j' where
    "snd (cancel_simulation [''s1'' \<mapsto> job_done] ''s1'') ''s1'' = Some j'"
    "status j' = ''cancelled''" "error j' = error job_done" "end_time j' = end_time job_done"
    "progress j' = progress job_done"
    by blast
  then have cancelled:
    "map_option status (snd (cancel_simulation [''s1'' \<mapsto> job_done] ''s1'') ''s1'') =
       Some ''cancelled''"
    "map_option progress (snd (cancel_simulation [''s1'' \<mapsto> job_done] ''s1'') ''s1'') = Some 100"
    "map_option end_time (snd (cancel_simulation [''s1'' \<mapsto> job_done] ''s1'') ''s1'') =
       Some (Some 1600)"
    "map_option error (snd (cancel_simulation [''s1'' \<mapsto> job_done] ''s1'') ''s1'') = Some None"
    by (simp_all add: job_done_def)
  have completed: "''completed'' \<in> set (statuses (fst (run_simulation_thread env_ok ''s1'' cfg_ok 5)))"
    by (simp add: sim_defs run_simps concrete_defs numeral_nat)
  have "after_status ''completed'' (fst (run_simulation_thread env_ok ''s1'' cfg_ok 5)) \<noteq> []"
    by (simp add: sim_defs run_simps concrete_defs numeral_nat after_status_append)
  with t have "after_status ''completed'' (fst (run_simulation_thread env_ok ''s1'' cfg_ok 5)) =
      [Write (EndTime (clock_end env_ok))]"
    by blast
  with t cancelled show ?thesis
    by (simp add: env_ok_def)
qed

text \<open>
  C2 as stated fails: a cancel request for a job that has completed changes its status
  from completed to cancelled.
\<close>

theorem cancel_overwrites_completed:
  "status job_done = ''completed'' \<and>
   map_option status (snd (cancel_simulation [''s1'' \<mapsto> job_done] ''s1'') ''s1'') =
     Some ''cancelled''"
  by (simp add: cancel_simulation_def job_done_def)

section \<open>Progress over the life of a job\<close>





























end
